theory Spec2Isabelle
  imports
    Complex_Main
    "HOL-Library.Char_ord"
    "HOL-Library.List_Lexorder"
    "HOL-Library.Multiset"
begin

section \<open>The country table generator \<^verbatim>\<open>scripts/iso3166.py\<close>\<close>

text \<open>
  The script reads \<^verbatim>\<open>iso3166_all.json\<close> beside itself, projects every record to the pair
  of its \<^verbatim>\<open>alpha-2\<close> and \<^verbatim>\<open>name\<close> values, sorts the pairs by the first component and
  prints a Rust array literal.  The embedding follows the function \<^verbatim>\<open>gen_cc\<close> line by
  line.  What Python itself does (iteration, subscripting, \<^verbatim>\<open><\<close>, \<^verbatim>\<open>str\<close>, \<^verbatim>\<open>sorted\<close>,
  \<^verbatim>\<open>%\<close>, \<^verbatim>\<open>print\<close>) is written out for the values \<^verbatim>\<open>json.loads\<close> can return, and every
  exception is a value.
\<close>

subsection \<open>Values and exceptions\<close>

text \<open>
  The values \<^verbatim>\<open>json.loads\<close> returns: \<^verbatim>\<open>None\<close>, \<^verbatim>\<open>bool\<close>, \<^verbatim>\<open>int\<close> (unbounded), \<^verbatim>\<open>str\<close>,
  \<^verbatim>\<open>list\<close> and \<^verbatim>\<open>dict\<close> with \<^verbatim>\<open>str\<close> keys, its items in insertion order, one item for a
  key (a lookup takes the first).  A string is the list of
  the bytes of its UTF-8 text; the order of UTF-8 byte sequences is the order of the code
  point sequences Python compares.

  A JSON number with a fraction or an exponent is a Python \<^verbatim>\<open>float\<close>: a finite double,
  which is a rational number, or the negative zero; \<^verbatim>\<open>json.loads\<close> also reads the words
  \<^verbatim>\<open>Infinity\<close>, \<^verbatim>\<open>-Infinity\<close> and \<^verbatim>\<open>NaN\<close>, and returns one and the same object for every
  \<^verbatim>\<open>NaN\<close>.
\<close>

datatype pyfloat =
    Finite rat
  | NegZero
  | PosInf
  | NegInf
  | NaN

datatype json =
    JNull
  | JBool bool
  | JInt int
  | JFloat pyfloat
  | JStr string
  | JList "json list"
  | JObj "(string \<times> json) list"

datatype error =
    OSError
  | UnicodeDecodeError
  | JSONDecodeError
  | KeyError string
  | TypeError
  | UnicodeEncodeError

text \<open>
  The library functions whose result the script uses but whose code is not part of it:
  \<^verbatim>\<open>json.loads\<close> (\<open>None\<close> when it raises \<^verbatim>\<open>JSONDecodeError\<close>), \<^verbatim>\<open>repr\<close> on a \<^verbatim>\<open>str\<close>,
  which \<^verbatim>\<open>str\<close> of a list or of a dict applies to the strings inside, and \<^verbatim>\<open>repr\<close> on a
  \<^verbatim>\<open>float\<close> (the shortest decimal that reads back as the same double).
\<close>

record python =
  json_loads :: "string \<Rightarrow> json option"
  repr_str :: "string \<Rightarrow> string"
  repr_float :: "pyfloat \<Rightarrow> string"

text \<open>
  The part of the machine the script touches: the directory of the script file
  (\<^verbatim>\<open>os.path.dirname(os.path.realpath(__file__))\<close>), what \<^verbatim>\<open>open(p, "r").read()\<close> gives
  for a path, and the bytes written to standard output so far.
\<close>

record world =
  script_dir :: string
  read_text :: "string \<Rightarrow> error + string"
  stdout :: string

subsection \<open>Python's operations on these values\<close>

text \<open>Iterating a value, as \<^verbatim>\<open>map(f, data)\<close> does: a dict yields its keys, a string its
  characters (one string for every byte here, for every code point in Python: the lambda
  of line 16 raises on the first of them either way), and \<^verbatim>\<open>None\<close>, a bool, an int or a
  float is not iterable.\<close>

fun py_iter :: "json \<Rightarrow> error + json list" where
  "py_iter (JList xs) = Inr xs"
| "py_iter (JObj kvs) = Inr (map (\<lambda>kv. JStr (fst kv)) kvs)"
| "py_iter (JStr s) = Inr (map (\<lambda>c. JStr [c]) s)"
| "py_iter JNull = Inl TypeError"
| "py_iter (JBool b) = Inl TypeError"
| "py_iter (JInt i) = Inl TypeError"
| "py_iter (JFloat f) = Inl TypeError"

text \<open>\<^verbatim>\<open>elem[k]\<close> for a string \<open>k\<close>: a dict looks the key up or raises \<^verbatim>\<open>KeyError\<close>; a list
  or a string takes integer indices only, and the other values are not subscriptable.\<close>

fun py_getitem :: "json \<Rightarrow> string \<Rightarrow> error + json" where
  "py_getitem (JObj kvs) k = (case map_of kvs k of None \<Rightarrow> Inl (KeyError k) | Some v \<Rightarrow> Inr v)"
| "py_getitem JNull k = Inl TypeError"
| "py_getitem (JBool b) k = Inl TypeError"
| "py_getitem (JInt i) k = Inl TypeError"
| "py_getitem (JFloat f) k = Inl TypeError"
| "py_getitem (JStr s) k = Inl TypeError"
| "py_getitem (JList xs) k = Inl TypeError"

text \<open>Numbers: a bool is the int 0 or 1, and an int is compared with a float by its
  exact value.  \<^verbatim>\<open>NaN\<close> is smaller than nothing and nothing is smaller than it.\<close>

fun is_num :: "json \<Rightarrow> bool" where
  "is_num (JBool b) = True"
| "is_num (JInt i) = True"
| "is_num (JFloat f) = True"
| "is_num JNull = False"
| "is_num (JStr s) = False"
| "is_num (JList xs) = False"
| "is_num (JObj kvs) = False"

fun num_of :: "json \<Rightarrow> pyfloat" where
  "num_of (JBool b) = Finite (if b then 1 else 0)"
| "num_of (JInt i) = Finite (of_int i)"
| "num_of (JFloat f) = f"
| "num_of JNull = NaN"
| "num_of (JStr s) = NaN"
| "num_of (JList xs) = NaN"
| "num_of (JObj kvs) = NaN"

fun is_nan :: "pyfloat \<Rightarrow> bool" where
  "is_nan NaN = True"
| "is_nan (Finite q) = False"
| "is_nan NegZero = False"
| "is_nan PosInf = False"
| "is_nan NegInf = False"

fun float_rank :: "pyfloat \<Rightarrow> int" where
  "float_rank NegInf = - 1"
| "float_rank PosInf = 1"
| "float_rank (Finite q) = 0"
| "float_rank NegZero = 0"
| "float_rank NaN = 0"

fun float_val :: "pyfloat \<Rightarrow> rat" where
  "float_val (Finite q) = q"
| "float_val NegZero = 0"
| "float_val PosInf = 0"
| "float_val NegInf = 0"
| "float_val NaN = 0"

definition float_less :: "pyfloat \<Rightarrow> pyfloat \<Rightarrow> bool" where
  "float_less a b =
     (\<not> is_nan a \<and> \<not> is_nan b \<and>
      (float_rank a < float_rank b \<or> (float_rank a = float_rank b \<and> float_val a < float_val b)))"

text \<open>Equality of two numbers that stand in a list or a dict: Python takes one and
  the same object as equal to itself there, so the one \<^verbatim>\<open>NaN\<close> of \<^verbatim>\<open>json.loads\<close> equals
  itself, and it equals no other number.\<close>

definition float_eq :: "pyfloat \<Rightarrow> pyfloat \<Rightarrow> bool" where
  "float_eq a b =
     ((is_nan a \<and> is_nan b) \<or>
      (\<not> is_nan a \<and> \<not> is_nan b \<and> float_rank a = float_rank b \<and> float_val a = float_val b))"

text \<open>\<^verbatim>\<open>a == b\<close> for two elements of lists (the only place where the comparison of two
  keys needs it): it never raises on these values.  Lists are equal elementwise; two
  dicts are equal when they have the same number of keys and every key of the first has
  an equal value in the second.\<close>

function py_eq :: "json \<Rightarrow> json \<Rightarrow> bool"
  and py_eq_list :: "json list \<Rightarrow> json list \<Rightarrow> bool"
  and py_eq_items :: "(string \<times> json) list \<Rightarrow> (string \<times> json) list \<Rightarrow> bool"
where
  "py_eq a b =
     (case (a, b) of
        (JNull, JNull) \<Rightarrow> True
      | (JStr s, JStr t) \<Rightarrow> s = t
      | (JList xs, JList ys) \<Rightarrow> py_eq_list xs ys
      | (JObj kvs, JObj lws) \<Rightarrow> length kvs = length lws \<and> py_eq_items kvs lws
      | _ \<Rightarrow> is_num a \<and> is_num b \<and> float_eq (num_of a) (num_of b))"
| "py_eq_list [] ys = (ys = [])"
| "py_eq_list (x # xs) ys =
     (case ys of [] \<Rightarrow> False | y # ys' \<Rightarrow> py_eq x y \<and> py_eq_list xs ys')"
| "py_eq_items [] lws = True"
| "py_eq_items (kv # kvs) lws =
     (case map_of lws (fst kv) of
        None \<Rightarrow> False
      | Some w \<Rightarrow> py_eq (snd kv) w \<and> py_eq_items kvs lws)"
  by pat_completeness auto
termination
  by lexicographic_order

text \<open>\<^verbatim>\<open>a < b\<close>, the only comparison \<^verbatim>\<open>sorted\<close> makes.  Two strings compare
  lexicographically, two numbers by value, two lists by the first position where their
  elements are not equal (\<^verbatim>\<open>==\<close>), or by length when there is none.  Every other pair of
  operands, \<^verbatim>\<open>None < None\<close> and two dicts included, raises \<^verbatim>\<open>TypeError\<close>.\<close>

function py_lt :: "json \<Rightarrow> json \<Rightarrow> error + bool"
  and py_lt_list :: "json list \<Rightarrow> json list \<Rightarrow> error + bool"
where
  "py_lt a b =
     (case (a, b) of
        (JStr s, JStr t) \<Rightarrow> Inr (s < t)
      | (JList xs, JList ys) \<Rightarrow> py_lt_list xs ys
      | _ \<Rightarrow>
          if is_num a \<and> is_num b then Inr (float_less (num_of a) (num_of b))
          else Inl TypeError)"
| "py_lt_list [] ys = Inr (ys \<noteq> [])"
| "py_lt_list (x # xs) ys =
     (case ys of
        [] \<Rightarrow> Inr False
      | y # ys' \<Rightarrow> if py_eq x y then py_lt_list xs ys' else py_lt x y)"
  by pat_completeness auto
termination
  by lexicographic_order

text \<open>The decimal numeral of a natural number and of an int, as \<^verbatim>\<open>%d\<close> and \<^verbatim>\<open>str\<close>
  print them.\<close>

definition digit_char :: "nat \<Rightarrow> char" where
  "digit_char d = ''0123456789'' ! d"

fun decimal :: "nat \<Rightarrow> string" where
  "decimal n = (if n < 10 then [digit_char n] else decimal (n div 10) @ [digit_char (n mod 10)])"

declare decimal.simps [simp del]

definition decimal_int :: "int \<Rightarrow> string" where
  "decimal_int i = (if 0 \<le> i then decimal (nat i) else CHR ''-'' # decimal (nat (- i)))"

text \<open>\<^verbatim>\<open>sep.join(parts)\<close>.\<close>

fun join :: "string \<Rightarrow> string list \<Rightarrow> string" where
  "join sep [] = []"
| "join sep [p] = p"
| "join sep (p # q # ps) = p @ sep @ join sep (q # ps)"

text \<open>\<^verbatim>\<open>repr(v)\<close> and \<^verbatim>\<open>str(v)\<close>.  They differ on a string only: \<^verbatim>\<open>str\<close> returns the
  string itself, \<^verbatim>\<open>repr\<close> quotes it.\<close>

fun py_repr :: "python \<Rightarrow> json \<Rightarrow> string" where
  "py_repr py JNull = ''None''"
| "py_repr py (JBool b) = (if b then ''True'' else ''False'')"
| "py_repr py (JInt i) = decimal_int i"
| "py_repr py (JFloat f) = repr_float py f"
| "py_repr py (JStr s) = repr_str py s"
| "py_repr py (JList xs) = ''['' @ join '', '' (map (py_repr py) xs) @ '']''"
| "py_repr py (JObj kvs) =
     ''{'' @ join '', '' (map (\<lambda>kv. repr_str py (fst kv) @ '': '' @ py_repr py (snd kv)) kvs) @ ''}''"

fun py_str :: "python \<Rightarrow> json \<Rightarrow> string" where
  "py_str py (JStr s) = s"
| "py_str py JNull = py_repr py JNull"
| "py_str py (JBool b) = py_repr py (JBool b)"
| "py_str py (JInt i) = py_repr py (JInt i)"
| "py_str py (JFloat f) = py_repr py (JFloat f)"
| "py_str py (JList xs) = py_repr py (JList xs)"
| "py_str py (JObj kvs) = py_repr py (JObj kvs)"

text \<open>\<^verbatim>\<open>sorted(items, key=lambda item: item[0])\<close>: a stable sort that compares the keys with
  \<^verbatim>\<open><\<close> only and raises what a comparison raises.  It is written as the insertion sort
  that puts each item before the first item of the sorted rest whose key is not smaller;
  on keys that \<^verbatim>\<open><\<close> orders totally this is the one stable sorted list, whatever order
  the comparisons are made in, and on two items the only comparison made is
  \<^verbatim>\<open>key(items[1]) < key(items[0])\<close>, as in CPython.  Where \<^verbatim>\<open><\<close> is no order on the keys
  (a \<^verbatim>\<open>NaN\<close> among them), CPython leaves the items in an order that depends on the
  comparisons it makes; the function below then returns one permutation of the items, and
  no theorem rests on which one.\<close>

fun insort_py :: "json \<times> json \<Rightarrow> (json \<times> json) list \<Rightarrow> error + (json \<times> json) list" where
  "insort_py x [] = Inr [x]"
| "insort_py x (y # ys) =
     (case py_lt (fst y) (fst x) of
        Inl e \<Rightarrow> Inl e
      | Inr lt \<Rightarrow>
          if lt then (case insort_py x ys of Inl e \<Rightarrow> Inl e | Inr zs \<Rightarrow> Inr (y # zs))
          else Inr (x # y # ys))"

fun sorted_py :: "(json \<times> json) list \<Rightarrow> error + (json \<times> json) list" where
  "sorted_py [] = Inr []"
| "sorted_py (x # xs) = (case sorted_py xs of Inl e \<Rightarrow> Inl e | Inr ys \<Rightarrow> insort_py x ys)"

subsection \<open>The module constants\<close>

text \<open>\<^verbatim>\<open>os.path.join(a, b)\<close> on a POSIX system.\<close>

definition path_join :: "string \<Rightarrow> string \<Rightarrow> string" where
  "path_join a b =
     (if b \<noteq> [] \<and> hd b = CHR ''/'' then b
      else if a = [] \<or> last a = CHR ''/'' then a @ b
      else a @ ''/'' @ b)"

definition ISO3166_DATA :: "world \<Rightarrow> string" where
  "ISO3166_DATA w = path_join (script_dir w) ''iso3166_all.json''"

subsection \<open>\<^verbatim>\<open>gen_cc\<close>\<close>

text \<open>The lambda of line 16: \<^verbatim>\<open>(elem["alpha-2"], elem["name"])\<close>, left to right.\<close>

definition project :: "json \<Rightarrow> error + (json \<times> json)" where
  "project elem =
     (case py_getitem elem ''alpha-2'' of
        Inl e \<Rightarrow> Inl e
      | Inr c \<Rightarrow> (case py_getitem elem ''name'' of Inl e \<Rightarrow> Inl e | Inr n \<Rightarrow> Inr (c, n)))"

text \<open>\<^verbatim>\<open>list(map(f, xs))\<close>: the first element on which \<open>f\<close> raises ends the run.\<close>

fun list_map :: "('a \<Rightarrow> error + 'b) \<Rightarrow> 'a list \<Rightarrow> error + 'b list" where
  "list_map f [] = Inr []"
| "list_map f (x # xs) =
     (case f x of
        Inl e \<Rightarrow> Inl e
      | Inr y \<Rightarrow> (case list_map f xs of Inl e \<Rightarrow> Inl e | Inr ys \<Rightarrow> Inr (y # ys)))"

text \<open>Line 24: \<^verbatim>\<open>"(\"%s\", \"%s\"), " % item\<close>; \<^verbatim>\<open>%s\<close> applies \<^verbatim>\<open>str\<close>.\<close>

definition fmt_item :: "python \<Rightarrow> json \<times> json \<Rightarrow> string" where
  "fmt_item py item = ''(\"'' @ py_str py (fst item) @ ''\", \"'' @ py_str py (snd item) @ ''\"), ''"

text \<open>Lines 20 to 24, the loop \<^verbatim>\<open>for i in range(len(items))\<close>, from index \<open>i\<close> on.\<close>

function body_loop :: "python \<Rightarrow> (json \<times> json) list \<Rightarrow> nat \<Rightarrow> string \<Rightarrow> string" where
  "body_loop py items i body =
     (if i < length items then
        (let item = items ! i;
             body1 = (if i mod 1 = 0 then body @ ''\<newline>    '' else body);
             body2 = body1 @ fmt_item py item
         in body_loop py items (Suc i) body2)
      else body)"
  by pat_completeness auto
termination
  by (relation "measure (\<lambda>(py, items, i, body). length items - i)") auto

declare body_loop.simps [simp del]

text \<open>Line 26, the two \<^verbatim>\<open>%\<close> conversions \<^verbatim>\<open>%d\<close> and \<^verbatim>\<open>%s\<close>.\<close>

definition fmt_code :: "nat \<Rightarrow> string \<Rightarrow> string" where
  "fmt_code n body =
     ''\<newline>pub static COUNTRY_CODES: [(&'static str, &'static str); '' @ decimal n
       @ ''] = ['' @ body @ ''];\<newline>''"

text \<open>Lines 16 to 26: from the parsed data to the string \<^verbatim>\<open>code\<close>.\<close>

definition gen_code :: "python \<Rightarrow> json \<Rightarrow> error + string" where
  "gen_code py data =
     (case py_iter data of
        Inl e \<Rightarrow> Inl e
      | Inr elems \<Rightarrow>
          (case list_map project elems of
             Inl e \<Rightarrow> Inl e
           | Inr items0 \<Rightarrow>
               (case sorted_py items0 of
                  Inl e \<Rightarrow> Inl e
                | Inr items \<Rightarrow>
                    (let body = body_loop py items 0 [];
                         body' = body @ ''\<newline>''
                     in Inr (fmt_code (length items) body')))))"

text \<open>Line 15: \<^verbatim>\<open>json.loads(open(ISO3166_DATA, "r").read())\<close>.\<close>

definition load_data :: "python \<Rightarrow> world \<Rightarrow> error + json" where
  "load_data py w =
     (case read_text w (ISO3166_DATA w) of
        Inl e \<Rightarrow> Inl e
      | Inr txt \<Rightarrow> (case json_loads py txt of None \<Rightarrow> Inl JSONDecodeError | Some data \<Rightarrow> Inr data))"

text \<open>\<^verbatim>\<open>print(code)\<close> writes the string and a newline.\<close>

definition print :: "string \<Rightarrow> world \<Rightarrow> world" where
  "print s w = w\<lparr>stdout := stdout w @ s @ ''\<newline>''\<rparr>"

text \<open>The whole function: the result is the exception raised, if any, and the world it
  leaves.\<close>

definition gen_cc :: "python \<Rightarrow> world \<Rightarrow> (error + unit) \<times> world" where
  "gen_cc py w =
     (case load_data py w of
        Inl e \<Rightarrow> (Inl e, w)
      | Inr data \<Rightarrow>
          (case gen_code py data of
             Inl e \<Rightarrow> (Inl e, w)
           | Inr code \<Rightarrow> (Inr (), print code w)))"

definition main :: "python \<Rightarrow> world \<Rightarrow> (error + unit) \<times> world" where
  "main py w = gen_cc py w"

text \<open>Running the script: the interpreter exits with status 1 on an uncaught exception
  and with status 0 otherwise.\<close>

definition run_script :: "python \<Rightarrow> world \<Rightarrow> nat \<times> world" where
  "run_script py w = (case main py w of (Inl e, w') \<Rightarrow> (1, w') | (Inr u, w') \<Rightarrow> (0, w'))"

subsection \<open>The process and its encodings\<close>

text \<open>
  In \<open>world\<close> the dataset and the output are text.  The process reads and writes bytes:
  \<^verbatim>\<open>open(p, "r")\<close> decodes the bytes of the file with the encoding of the locale (no
  encoding is given in line 15), and \<^verbatim>\<open>print\<close> hands the text to \<^verbatim>\<open>sys.stdout\<close>, which
  encodes it with the encoding of standard output.  Both can fail: the decoder raises
  \<^verbatim>\<open>UnicodeDecodeError\<close> inside \<^verbatim>\<open>read\<close>, and the encoder raises \<^verbatim>\<open>UnicodeEncodeError\<close>
  inside \<^verbatim>\<open>print\<close> before any byte of the text is written.  The environment of a run: where
  the script lies, the bytes of the files, and the two codecs (\<open>None\<close> where they raise).
\<close>

record environment =
  script_location :: string
  file_bytes :: "string \<Rightarrow> error + string"
  locale_decode :: "string \<Rightarrow> string option"
  stdout_encode :: "string \<Rightarrow> string option"

text \<open>The world of text that the script sees in an environment, before it has written
  anything.\<close>

definition text_world :: "environment \<Rightarrow> world" where
  "text_world env =
     \<lparr>script_dir = script_location env,
      read_text = (\<lambda>p. case file_bytes env p of
                          Inl e \<Rightarrow> Inl e
                        | Inr bs \<Rightarrow> (case locale_decode env bs of
                                      None \<Rightarrow> Inl UnicodeDecodeError
                                    | Some txt \<Rightarrow> Inr txt)),
      stdout = []\<rparr>"

text \<open>A run of the script in an environment: how it ends, and the bytes on standard
  output.\<close>

definition process :: "python \<Rightarrow> environment \<Rightarrow> (error + unit) \<times> string" where
  "process py env =
     (case main py (text_world env) of
        (Inl e, w') \<Rightarrow> (Inl e, [])
      | (Inr u, w') \<Rightarrow>
          (case stdout_encode env (stdout w') of
             None \<Rightarrow> (Inl UnicodeEncodeError, [])
           | Some bs \<Rightarrow> (Inr (), bs)))"

subsection \<open>The vocabulary of the specification\<close>

text \<open>These definitions follow the words of the specification, not the code; the
  theorems below compare them with \<open>gen_cc\<close>.\<close>

text \<open>A value is text.\<close>

fun is_str :: "json \<Rightarrow> bool" where
  "is_str (JStr s) = True"
| "is_str JNull = False"
| "is_str (JBool b) = False"
| "is_str (JInt i) = False"
| "is_str (JFloat f) = False"
| "is_str (JList xs) = False"
| "is_str (JObj kvs) = False"

fun text_of :: "json \<Rightarrow> string" where
  "text_of (JStr s) = s"
| "text_of JNull = []"
| "text_of (JBool b) = []"
| "text_of (JInt i) = []"
| "text_of (JFloat f) = []"
| "text_of (JList xs) = []"
| "text_of (JObj kvs) = []"

text \<open>The value a record holds under a key (\<^verbatim>\<open>None\<close> when it holds none).\<close>

fun lookup :: "json \<Rightarrow> string \<Rightarrow> json" where
  "lookup (JObj kvs) k = (case map_of kvs k of None \<Rightarrow> JNull | Some v \<Rightarrow> v)"
| "lookup JNull k = JNull"
| "lookup (JBool b) k = JNull"
| "lookup (JInt i) k = JNull"
| "lookup (JFloat f) k = JNull"
| "lookup (JStr s) k = JNull"
| "lookup (JList xs) k = JNull"

text \<open>A record supplies both required fields: it is a mapping with the keys
  \<^verbatim>\<open>alpha-2\<close> and \<^verbatim>\<open>name\<close>.\<close>

fun has_keys :: "json \<Rightarrow> bool" where
  "has_keys (JObj kvs) = (map_of kvs ''alpha-2'' \<noteq> None \<and> map_of kvs ''name'' \<noteq> None)"
| "has_keys JNull = False"
| "has_keys (JBool b) = False"
| "has_keys (JInt i) = False"
| "has_keys (JFloat f) = False"
| "has_keys (JStr s) = False"
| "has_keys (JList xs) = False"

text \<open>A record lacks a required field: it is a mapping without one of the two keys.\<close>

fun lacks_key :: "json \<Rightarrow> bool" where
  "lacks_key (JObj kvs) = (map_of kvs ''alpha-2'' = None \<or> map_of kvs ''name'' = None)"
| "lacks_key JNull = False"
| "lacks_key (JBool b) = False"
| "lacks_key (JInt i) = False"
| "lacks_key (JFloat f) = False"
| "lacks_key (JStr s) = False"
| "lacks_key (JList xs) = False"

text \<open>A CountryRecord of the data model: both fields are there and hold text (a code
  and a name).  A valid dataset is a list of such records.\<close>

definition country_record :: "json \<Rightarrow> bool" where
  "country_record r =
     (has_keys r \<and> is_str (lookup r ''alpha-2'') \<and> is_str (lookup r ''name''))"

definition valid_dataset :: "json list \<Rightarrow> bool" where
  "valid_dataset rs = list_all country_record rs"

text \<open>The pair \<open>(code, name)\<close> of a record, and the pairs of a dataset in input order.\<close>

definition pair_of :: "json \<Rightarrow> string \<times> string" where
  "pair_of r = (text_of (lookup r ''alpha-2''), text_of (lookup r ''name''))"

definition pairs_of :: "json list \<Rightarrow> (string \<times> string) list" where
  "pairs_of rs = map pair_of rs"

text \<open>The rendered entry \<^verbatim>\<open>("CODE", "Name"), \<close> of a pair, the name as it is.\<close>

definition entry :: "string \<times> string \<Rightarrow> string" where
  "entry p = ''(\"'' @ fst p @ ''\", \"'' @ snd p @ ''\"), ''"

text \<open>The body: every entry on a line of its own that begins with four spaces, and a
  newline before the closing bracket.\<close>

definition body_of :: "string list \<Rightarrow> string" where
  "body_of es = concat (map (\<lambda>e. ''\<newline>    '' @ e) es) @ ''\<newline>''"

text \<open>The output format: a blank line, the declaration with the count \<open>n\<close> and the
  body between the brackets, a blank line.\<close>

definition output_of :: "nat \<Rightarrow> string \<Rightarrow> string" where
  "output_of n body =
     ''\<newline>'' @ ''pub static COUNTRY_CODES: [(&'static str, &'static str); '' @ decimal n
       @ ''] = ['' @ body @ ''];'' @ ''\<newline>'' @ ''\<newline>''"

text \<open>The two values the generator reads from a record.\<close>

definition fields :: "json \<Rightarrow> json \<times> json" where
  "fields r = (lookup r ''alpha-2'', lookup r ''name'')"

text \<open>Byte-wise order of two strings: at the first position where they differ the
  smaller byte decides, and a proper prefix comes first.\<close>

fun bytes_less :: "string \<Rightarrow> string \<Rightarrow> bool" where
  "bytes_less [] [] = False"
| "bytes_less [] (b # bs) = True"
| "bytes_less (a # as) [] = False"
| "bytes_less (a # as) (b # bs) =
     ((of_char a :: nat) < of_char b \<or> ((of_char a :: nat) = of_char b \<and> bytes_less as bs))"



text \<open>Two records agree on the two fields the generator reads.\<close>

definition same_fields :: "json \<Rightarrow> json \<Rightarrow> bool" where
  "same_fields r r' =
     (lookup r ''alpha-2'' = lookup r' ''alpha-2'' \<and> lookup r ''name'' = lookup r' ''name'')"

subsection \<open>Example inputs\<close>

text \<open>The example of the specification: two records, out of order.\<close>

definition text_us_ad :: string where
  "text_us_ad =
     ''[{\"alpha-2\":\"US\",\"name\":\"United States\"}, {\"alpha-2\":\"AD\",\"name\":\"Andorra\"}]''"

definition records_us_ad :: "json list" where
  "records_us_ad =
     [JObj [(''alpha-2'', JStr ''US''), (''name'', JStr ''United States'')],
      JObj [(''alpha-2'', JStr ''AD''), (''name'', JStr ''Andorra'')]]"

text \<open>The same records with further keys.\<close>

definition records_us_ad_extra :: "json list" where
  "records_us_ad_extra =
     [JObj [(''alpha-3'', JStr ''USA''), (''alpha-2'', JStr ''US''),
            (''name'', JStr ''United States''), (''region'', JStr ''Americas'')],
      JObj [(''alpha-2'', JStr ''AD''), (''country-code'', JInt 20), (''name'', JStr ''Andorra'')]]"

text \<open>Two records with the same code, and one with a smaller code after them.\<close>

definition text_ties :: string where
  "text_ties =
     ''[{\"alpha-2\":\"B\",\"name\":\"z\"}, {\"alpha-2\":\"B\",\"name\":\"a\"}, {\"alpha-2\":\"A\",\"name\":\"m\"}]''"

definition records_ties :: "json list" where
  "records_ties =
     [JObj [(''alpha-2'', JStr ''B''), (''name'', JStr ''z'')],
      JObj [(''alpha-2'', JStr ''B''), (''name'', JStr ''a'')],
      JObj [(''alpha-2'', JStr ''A''), (''name'', JStr ''m'')]]"

text \<open>A record without a name.\<close>

definition text_no_name :: string where
  "text_no_name = ''[{\"alpha-2\":\"US\"}]''"

definition records_no_name :: "json list" where
  "records_no_name = [JObj [(''alpha-2'', JStr ''US'')]]"

text \<open>A name with a double quote in it (escaped in the JSON text, as JSON requires).\<close>

definition text_quote :: string where
  "text_quote = ''[{\"alpha-2\":\"X\",\"name\":\"a'' @ [CHR 0x5C] @ ''\"b\"}]''"

definition records_quote :: "json list" where
  "records_quote = [JObj [(''alpha-2'', JStr ''X''), (''name'', JStr ''a\"b'')]]"

text \<open>Two records whose code is \<^verbatim>\<open>null\<close>.\<close>

definition text_null_codes :: string where
  "text_null_codes = ''[{\"alpha-2\":null,\"name\":\"a\"}, {\"alpha-2\":null,\"name\":\"b\"}]''"

definition records_null_codes :: "json list" where
  "records_null_codes =
     [JObj [(''alpha-2'', JNull), (''name'', JStr ''a'')],
      JObj [(''alpha-2'', JNull), (''name'', JStr ''b'')]]"

text \<open>Codes that are text but no two-letter upper-case codes, names that are no text.\<close>

definition text_loose :: string where
  "text_loose = ''[{\"alpha-2\":\"usa\",\"name\":null}, {\"alpha-2\":\"A\",\"name\":[1]}]''"

definition records_loose :: "json list" where
  "records_loose =
     [JObj [(''alpha-2'', JStr ''usa''), (''name'', JNull)],
      JObj [(''alpha-2'', JStr ''A''), (''name'', JList [JInt 1])]]"

text \<open>One record whose code is a number.\<close>

definition text_number_code :: string where
  "text_number_code = ''[{\"alpha-2\":840,\"name\":\"United States\"}]''"

definition records_number_code :: "json list" where
  "records_number_code = [JObj [(''alpha-2'', JInt 840), (''name'', JStr ''United States'')]]"

text \<open>Two records whose codes are numbers: 10 before 9.\<close>

definition text_number_codes :: string where
  "text_number_codes = ''[{\"alpha-2\":10,\"name\":\"b\"}, {\"alpha-2\":9,\"name\":\"a\"}]''"

definition records_number_codes :: "json list" where
  "records_number_codes =
     [JObj [(''alpha-2'', JInt 10), (''name'', JStr ''b'')],
      JObj [(''alpha-2'', JInt 9), (''name'', JStr ''a'')]]"

text \<open>Codes that are a float and an int, and a name that is \<^verbatim>\<open>NaN\<close>.\<close>

definition text_floats :: string where
  "text_floats = ''[{\"alpha-2\":1.5,\"name\":NaN}, {\"alpha-2\":1,\"name\":\"a\"}]''"

definition records_floats :: "json list" where
  "records_floats =
     [JObj [(''alpha-2'', JFloat (Finite (3 / 2))), (''name'', JFloat NaN)],
      JObj [(''alpha-2'', JInt 1), (''name'', JStr ''a'')]]"

text \<open>A name that is not ASCII: \<^verbatim>\<open>AX\<close>, the \<^verbatim>\<open>Aland Islands\<close> with a ring on the first
  letter, which is the two bytes C3 85 in UTF-8.\<close>

definition name_aland :: string where
  "name_aland = [CHR 0xC3, CHR 0x85] @ ''land Islands''"

definition text_aland :: string where
  "text_aland = ''[{\"alpha-2\":\"AX\",\"name\":\"'' @ name_aland @ ''\"}]''"

definition records_aland :: "json list" where
  "records_aland = [JObj [(''alpha-2'', JStr ''AX''), (''name'', JStr name_aland)]]"

text \<open>A runtime whose \<^verbatim>\<open>json.loads\<close> is the table of these texts and their values (any
  other text is taken as malformed), and whose \<^verbatim>\<open>repr\<close> puts a string between single
  quotes, as Python does for a string without quotes, backslashes or control
  characters.  Its \<^verbatim>\<open>repr\<close> of a float is right for the floats of the examples, of which
  1.5 is the only finite one.\<close>

definition example_loads :: "(string \<times> json) list" where
  "example_loads =
     [(''[]'', JList []),
      (text_us_ad, JList records_us_ad),
      (text_ties, JList records_ties),
      (text_no_name, JList records_no_name),
      (text_quote, JList records_quote),
      (text_null_codes, JList records_null_codes),
      (text_loose, JList records_loose),
      (text_number_code, JList records_number_code),
      (text_number_codes, JList records_number_codes),
      (text_floats, JList records_floats),
      (text_aland, JList records_aland)]"

fun example_repr_float :: "pyfloat \<Rightarrow> string" where
  "example_repr_float (Finite q) = ''1.5''"
| "example_repr_float NegZero = ''-0.0''"
| "example_repr_float PosInf = ''inf''"
| "example_repr_float NegInf = ''-inf''"
| "example_repr_float NaN = ''nan''"

definition example_python :: python where
  "example_python =
     \<lparr>json_loads = map_of example_loads,
      repr_str = (\<lambda>s. [CHR 0x27] @ s @ [CHR 0x27]),
      repr_float = example_repr_float\<rparr>"

text \<open>A world in which the script lies in \<^verbatim>\<open>/repo/scripts\<close>, the dataset file holds the
  given text, and nothing has been written yet; and one in which there is no dataset
  file.\<close>

definition example_world :: "string \<Rightarrow> world" where
  "example_world txt =
     \<lparr>script_dir = ''/repo/scripts'',
      read_text = (\<lambda>p. if p = ''/repo/scripts/iso3166_all.json'' then Inr txt else Inl OSError),
      stdout = []\<rparr>"

definition example_no_file :: world where
  "example_no_file =
     \<lparr>script_dir = ''/repo/scripts'', read_text = (\<lambda>p. Inl OSError), stdout = []\<rparr>"

text \<open>The codecs of two locales.  Text is held as its UTF-8 bytes, so the UTF-8 codec
  leaves it as it is; the ASCII codec raises on a byte from 128 on, in both directions.\<close>

definition utf8 :: "string \<Rightarrow> string option" where
  "utf8 s = Some s"

definition ascii :: "string \<Rightarrow> string option" where
  "ascii s = (if list_all (\<lambda>c. (of_char c :: nat) < 128) s then Some s else None)"

text \<open>An environment in which the script lies in \<^verbatim>\<open>/repo/scripts\<close>, the dataset file holds
  the bytes of the last example, the locale is UTF-8, and standard output has the given
  encoding.\<close>

definition example_env :: "(string \<Rightarrow> string option) \<Rightarrow> environment" where
  "example_env enc =
     \<lparr>script_location = ''/repo/scripts'',
      file_bytes = (\<lambda>p. if p = ''/repo/scripts/iso3166_all.json'' then Inr text_aland
                         else Inl OSError),
      locale_decode = utf8,
      stdout_encode = enc\<rparr>"

text \<open>The same dataset and codecs with the script in another directory, beside a further
  file.\<close>

definition example_env_moved :: environment where
  "example_env_moved =
     \<lparr>script_location = ''/tmp/copy'',
      file_bytes = (\<lambda>p. if p = ''/tmp/copy/iso3166_all.json'' then Inr text_aland
                         else if p = ''/tmp/copy/notes.txt'' then Inr ''notes''
                         else Inl OSError),
      locale_decode = utf8,
      stdout_encode = utf8\<rparr>"

section \<open>Properties\<close>

subsection \<open>The steps of \<^verbatim>\<open>gen_cc\<close> in closed form\<close>

lemma project_has_keys: "has_keys r \<Longrightarrow> project r = Inr (fields r)"
  by (cases r) (auto simp: project_def fields_def split: option.splits)

lemma list_map_project: "list_all has_keys rs \<Longrightarrow> list_map project rs = Inr (map fields rs)"
  by (induction rs) (simp_all add: project_has_keys)


lemma insort_py_ordered:
  fixes key :: "json \<Rightarrow> 'k::linorder"
  assumes lt: "\<And>a b. P a \<Longrightarrow> P b \<Longrightarrow> py_lt a b = Inr (key a < key b)"
  shows "P (fst x) \<Longrightarrow> list_all (\<lambda>y. P (fst y)) ys \<Longrightarrow>
    insort_py x ys = Inr (insort_key (\<lambda>it. key (fst it)) x ys)"
proof (induction ys)
  case Nil
  show ?case by simp
next
  case (Cons y ys)
  from Cons.prems have "py_lt (fst y) (fst x) = Inr (key (fst y) < key (fst x))"
    by (intro lt) simp_all
  moreover from Cons have "insort_py x ys = Inr (insort_key (\<lambda>it. key (fst it)) x ys)"
    by simp
  ultimately show ?case
    by (auto simp: not_less simp del: py_lt.simps)
qed

lemma sorted_py_ordered:
  fixes key :: "json \<Rightarrow> 'k::linorder"
  assumes lt: "\<And>a b. P a \<Longrightarrow> P b \<Longrightarrow> py_lt a b = Inr (key a < key b)"
  shows "list_all (\<lambda>y. P (fst y)) items \<Longrightarrow>
    sorted_py items = Inr (sort_key (\<lambda>it. key (fst it)) items)"
proof (induction items)
  case Nil
  show ?case by simp
next
  case (Cons x xs)
  then have "list_all (\<lambda>y. P (fst y)) (sort_key (\<lambda>it. key (fst it)) xs)"
    by (simp add: list_all_iff)
  with Cons show ?case
    by (simp add: insort_py_ordered [where P = P, OF lt])
qed

lemma sorted_py_text:
  "list_all (\<lambda>y. is_str (fst y)) items \<Longrightarrow>
   sorted_py items = Inr (sort_key (\<lambda>it. text_of (fst it)) items)"
proof (rule sorted_py_ordered [where P = is_str])
  fix a b
  assume "is_str a" and "is_str b"
  then show "py_lt a b = Inr (text_of a < text_of b)"
    by (cases a; cases b) simp_all
qed

lemma body_loop_closed:
  "body_loop py items i body =
   body @ concat (map (\<lambda>it. ''\<newline>    '' @ fmt_item py it) (drop i items))"
proof (induction py items i body rule: body_loop.induct)
  case (1 py items i body)
  show ?case
  proof (cases "i < length items")
    case True
    then have "drop i items = items ! i # drop (Suc i) items"
      by (simp add: Cons_nth_drop_Suc)
    with True "1.IH" [OF True refl refl refl] show ?thesis
      by (subst body_loop.simps) (simp add: Let_def)
  next
    case False
    then show ?thesis
      by (subst body_loop.simps) simp
  qed
qed

lemma body_loop_body_of:
  "body_loop py items 0 [] @ ''\<newline>'' = body_of (map (fmt_item py) items)"
  by (simp add: body_loop_closed body_of_def comp_def)

lemma fmt_code_newline: "fmt_code n body @ ''\<newline>'' = output_of n body"
  by (simp add: fmt_code_def output_of_def)

lemma gen_cc_success:
  "load_data py w = Inr data \<Longrightarrow> gen_code py data = Inr code \<Longrightarrow>
   gen_cc py w = (Inr (), w\<lparr>stdout := stdout w @ code @ ''\<newline>''\<rparr>)"
  by (simp add: gen_cc_def print_def)

lemma insort_py_length: "insort_py x ys = Inr zs \<Longrightarrow> length zs = Suc (length ys)"
  by (induction ys arbitrary: zs) (auto split: sum.splits if_splits simp del: py_lt.simps)

lemma sorted_py_length: "sorted_py xs = Inr ys \<Longrightarrow> length ys = length xs"
  by (induction xs arbitrary: ys) (auto split: sum.splits dest: insort_py_length)

lemma gen_code_ordered:
  fixes key :: "json \<Rightarrow> 'k::linorder"
  assumes "list_all has_keys rs"
    and "sorted_py (map fields rs) = Inr (sort_key (\<lambda>it. key (fst it)) (map fields rs))"
  shows "gen_code py (JList rs) =
    Inr (fmt_code (length rs)
      (body_of (map (fmt_item py) (sort_key (\<lambda>it. key (fst it)) (map fields rs)))))"
  using list_map_project [OF assms(1)] assms(2)
  by (simp add: gen_code_def Let_def body_loop_body_of del: append_assoc)

lemma gen_code_text_codes:
  assumes "list_all has_keys rs" and "list_all (\<lambda>r. is_str (lookup r ''alpha-2'')) rs"
  shows "gen_code py (JList rs) =
    Inr (fmt_code (length rs)
      (body_of (map (fmt_item py) (sort_key (\<lambda>it. text_of (fst it)) (map fields rs)))))"
proof (rule gen_code_ordered [OF assms(1)])
  have "list_all (\<lambda>y. is_str (fst y)) (map fields rs)"
    using assms(2) by (simp add: list_all_iff fields_def)
  then show "sorted_py (map fields rs) = Inr (sort_key (\<lambda>it. text_of (fst it)) (map fields rs))"
    by (rule sorted_py_text)
qed

text \<open>On a valid dataset the items are the pairs of the records, as text.\<close>

lemma fields_country_record:
  "country_record r \<Longrightarrow> fields r = (JStr (fst (pair_of r)), JStr (snd (pair_of r)))"
  by (cases "lookup r ''alpha-2''"; cases "lookup r ''name''")
    (simp_all add: country_record_def fields_def pair_of_def)

lemma insort_key_map:
  "insort_key f (g x) (map g xs) = map g (insort_key (\<lambda>y. f (g y)) x xs)"
  by (induction xs) simp_all

lemma sort_key_map: "sort_key f (map g xs) = map g (sort_key (\<lambda>y. f (g y)) xs)"
  by (induction xs) (simp_all add: insort_key_map)

lemma gen_code_valid:
  assumes "valid_dataset rs"
  shows "gen_code py (JList rs) =
    Inr (fmt_code (length rs) (body_of (map entry (sort_key fst (pairs_of rs)))))"
proof -
  let ?item = "\<lambda>p. (JStr (fst p), JStr (snd p))"
  from assms have cr: "\<forall>r\<in>set rs. country_record r"
    by (simp add: valid_dataset_def list_all_iff)
  then have keys: "list_all has_keys rs" and strs: "list_all (\<lambda>r. is_str (lookup r ''alpha-2'')) rs"
    by (simp_all add: list_all_iff country_record_def)
  from cr have "map fields rs = map ?item (pairs_of rs)"
    by (simp add: pairs_of_def fields_country_record)
  then have "sort_key (\<lambda>it. text_of (fst it)) (map fields rs)
      = map ?item (sort_key fst (pairs_of rs))"
    by (simp add: sort_key_map)
  moreover have "fmt_item py \<circ> ?item = entry"
    by (simp add: fun_eq_iff fmt_item_def entry_def)
  ultimately show ?thesis
    using gen_code_text_codes [OF keys strs, of py] by simp
qed

lemma gen_cc_valid:
  assumes "load_data py w = Inr (JList rs)" and "valid_dataset rs"
  shows "gen_cc py w =
    (Inr (), w\<lparr>stdout := stdout w @
       output_of (length rs) (body_of (map entry (sort_key fst (pairs_of rs))))\<rparr>)"
  using gen_cc_success [OF assms(1) gen_code_valid [OF assms(2)]]
  by (simp add: fmt_code_newline)

lemma bytes_less_iff: "bytes_less s t \<longleftrightarrow> s < t"
  by (induction s t rule: bytes_less.induct) (auto simp: less_char_def)

lemma entry_in_body: "e \<in> set es \<Longrightarrow> \<exists>pre post. body_of es = pre @ e @ post"
proof -
  assume "e \<in> set es"
  then obtain xs ys where "es = xs @ e # ys"
    by (auto simp: in_set_conv_decomp)
  then have "body_of es = (concat (map (\<lambda>e. ''\<newline>    '' @ e) xs) @ ''\<newline>    '') @ e
      @ (concat (map (\<lambda>e. ''\<newline>    '' @ e) ys) @ ''\<newline>'')"
    by (simp add: body_of_def)
  then show ?thesis by blast
qed

lemma insort_py_mset: "insort_py x ys = Inr zs \<Longrightarrow> mset zs = add_mset x (mset ys)"
  by (induction ys arbitrary: zs) (auto split: sum.splits if_splits simp del: py_lt.simps)

lemma sorted_py_mset: "sorted_py xs = Inr ys \<Longrightarrow> mset ys = mset xs"
  by (induction xs arbitrary: ys) (auto split: sum.splits dest: insort_py_mset)





lemma fmt_item_eq:
  "fmt_item py = (\<lambda>it. ''(\"'' @ py_str py (fst it) @ ''\", \"'' @ py_str py (snd it) @ ''\"), '')"
  by (simp add: fun_eq_iff fmt_item_def)

lemma gen_cc_normal:
  assumes "gen_cc py w = (Inr (), w')"
  shows "\<exists>data elems items0 items.
    load_data py w = Inr data \<and> py_iter data = Inr elems \<and>
    list_map project elems = Inr items0 \<and> sorted_py items0 = Inr items \<and>
    w' = w\<lparr>stdout := stdout w @ output_of (length items) (body_of (map (fmt_item py) items))\<rparr>"
proof -
  from assms obtain data code where d: "load_data py w = Inr data"
      and c: "gen_code py data = Inr code"
      and w': "w' = w\<lparr>stdout := stdout w @ code @ ''\<newline>''\<rparr>"
    by (auto simp: gen_cc_def print_def split: sum.splits)
  from c obtain elems items0 items where "py_iter data = Inr elems"
      "list_map project elems = Inr items0" "sorted_py items0 = Inr items"
      "code = fmt_code (length items) (body_of (map (fmt_item py) items))"
    by (auto simp: gen_code_def Let_def body_loop_body_of simp del: append_assoc
        split: sum.splits)
  with d w' show ?thesis
    by (auto simp: fmt_code_newline simp del: append_assoc)
qed


subsection \<open>The example inputs, evaluated\<close>

lemma example_data_path [simp]:
  "ISO3166_DATA (example_world txt) = ''/repo/scripts/iso3166_all.json''"
  by (simp add: ISO3166_DATA_def path_join_def example_world_def)

lemma example_read [simp]: "read_text (example_world txt) ''/repo/scripts/iso3166_all.json'' = Inr txt"
  by (simp add: example_world_def)

lemma example_stdout [simp]: "stdout (example_world txt) = []"
  by (simp add: example_world_def)

lemma load_text:
  "map_of example_loads txt = Some d \<Longrightarrow> load_data example_python (example_world txt) = Inr d"
  by (simp add: load_data_def example_python_def)

lemma load_empty: "load_data example_python (example_world ''[]'') = Inr (JList [])"
  by (rule load_text) (simp add: example_loads_def)

lemma load_us_ad: "load_data example_python (example_world text_us_ad) = Inr (JList records_us_ad)"
  by (rule load_text) (simp add: example_loads_def text_us_ad_def)

lemma load_ties: "load_data example_python (example_world text_ties) = Inr (JList records_ties)"
  by (rule load_text) (simp add: example_loads_def text_ties_def text_us_ad_def)

lemma valid_us_ad: "valid_dataset records_us_ad"
  by (simp add: valid_dataset_def records_us_ad_def country_record_def)

lemma has_keys_us_ad: "list_all has_keys records_us_ad"
  by (simp add: records_us_ad_def)

lemma pairs_us_ad: "pairs_of records_us_ad = [(''US'', ''United States''), (''AD'', ''Andorra'')]"
  by (simp add: pairs_of_def pair_of_def records_us_ad_def)

lemma valid_ties: "valid_dataset records_ties"
  by (simp add: valid_dataset_def records_ties_def country_record_def)

lemma pairs_ties: "pairs_of records_ties = [(''B'', ''z''), (''B'', ''a''), (''A'', ''m'')]"
  by (simp add: pairs_of_def pair_of_def records_ties_def)

lemma load_no_name:
  "load_data example_python (example_world text_no_name) = Inr (JList records_no_name)"
  by (rule load_text)
    (simp add: example_loads_def text_no_name_def text_ties_def text_us_ad_def)

lemma load_quote:
  "load_data example_python (example_world text_quote) = Inr (JList records_quote)"
  by (rule load_text)
    (simp add: example_loads_def text_quote_def text_no_name_def text_ties_def text_us_ad_def)




lemma loads_malformed: "json_loads example_python ''{'' = None"
  by (simp add: example_python_def example_loads_def text_us_ad_def text_ties_def
      text_no_name_def text_quote_def text_null_codes_def text_loose_def text_number_code_def
      text_number_codes_def text_floats_def text_aland_def name_aland_def)

lemma valid_quote: "valid_dataset records_quote"
  by (simp add: valid_dataset_def records_quote_def country_record_def)

lemma pairs_quote: "pairs_of records_quote = [(''X'', ''a\"b'')]"
  by (simp add: pairs_of_def pair_of_def records_quote_def)

lemma gen_cc_us_ad:
  "gen_cc example_python (example_world text_us_ad) =
     (Inr (), (example_world text_us_ad)\<lparr>stdout :=
        output_of 2 (body_of [entry (''AD'', ''Andorra''), entry (''US'', ''United States'')])\<rparr>)"
  using gen_cc_valid [OF load_us_ad valid_us_ad]
  by (simp add: pairs_us_ad) (simp add: records_us_ad_def numeral_2_eq_2)





lemma load_aland:
  "file_bytes env (ISO3166_DATA (text_world env)) = Inr text_aland \<Longrightarrow>
   locale_decode env = utf8 \<Longrightarrow>
   load_data example_python (text_world env) = Inr (JList records_aland)"
  by (simp add: load_data_def text_world_def utf8_def example_python_def example_loads_def
      text_aland_def name_aland_def text_floats_def text_number_codes_def text_number_code_def
      text_loose_def text_null_codes_def text_quote_def text_no_name_def text_ties_def
      text_us_ad_def)

lemma main_aland:
  assumes "file_bytes env (ISO3166_DATA (text_world env)) = Inr text_aland"
    and "locale_decode env = utf8"
  shows "main example_python (text_world env) =
    (Inr (), (text_world env)\<lparr>stdout := output_of 1 (body_of [entry (''AX'', name_aland)])\<rparr>)"
proof -
  have "valid_dataset records_aland"
    by (simp add: valid_dataset_def records_aland_def country_record_def)
  from gen_cc_valid [OF load_aland [OF assms] this] show ?thesis
    by (simp add: main_def pairs_of_def pair_of_def records_aland_def text_world_def)
qed

lemma example_env_file:
  "file_bytes (example_env enc) (ISO3166_DATA (text_world (example_env enc))) = Inr text_aland"
  by (simp add: example_env_def text_world_def ISO3166_DATA_def path_join_def)

lemma example_env_moved_file:
  "file_bytes example_env_moved (ISO3166_DATA (text_world example_env_moved)) = Inr text_aland"
  by (simp add: example_env_moved_def text_world_def ISO3166_DATA_def path_join_def)

lemma ascii_raises: "c \<in> set s \<Longrightarrow> \<not> (of_char c :: nat) < 128 \<Longrightarrow> ascii s = None"
  by (auto simp: ascii_def list_all_iff)

lemma process_utf8:
  "process example_python (example_env utf8) =
     (Inr (), output_of 1 (body_of [entry (''AX'', name_aland)]))"
  using main_aland [OF example_env_file, of utf8]
  by (simp add: process_def example_env_def text_world_def utf8_def)

lemma process_ascii:
  "process example_python (example_env ascii) = (Inl UnicodeEncodeError, [])"
proof -
  have "CHR 0xC3 \<in> set (output_of 1 (body_of [entry (''AX'', name_aland)]))"
    by (simp add: output_of_def body_of_def entry_def name_aland_def)
  then have "ascii (output_of 1 (body_of [entry (''AX'', name_aland)])) = None"
    by (rule ascii_raises) simp
  then show ?thesis
    using main_aland [OF example_env_file, of ascii]
    by (simp add: process_def example_env_def text_world_def)
qed

subsection \<open>Cardinality\<close>

text \<open>
  Claim C1.  For every dataset that is a list of records each holding the keys
  \<^verbatim>\<open>alpha-2\<close> and \<^verbatim>\<open>name\<close>: on a valid dataset, where the two fields of every record
  hold text (a code and a name, as in the data model), \<open>gen_cc\<close> returns normally and
  what it writes is the literal whose declared count is the number of records and whose
  body is the entries of the sorted pairs, one for every record.  Whatever the values
  are: whenever \<open>gen_cc\<close> returns normally, what it has written is the literal whose
  declared count is the number of records and whose entries are those of a rearrangement
  of the records' items, one for every record.
\<close>

theorem cardinality_preserved:
  assumes "load_data py w = Inr (JList rs)" and "list_all has_keys rs"
  shows "(valid_dataset rs \<longrightarrow>
      gen_cc py w =
        (Inr (), w\<lparr>stdout := stdout w @
           output_of (length rs) (body_of (map entry (sort_key fst (pairs_of rs))))\<rparr>) \<and>
      length (map entry (sort_key fst (pairs_of rs))) = length rs) \<and>
    (gen_cc py w = (Inr (), w') \<longrightarrow>
      (\<exists>items. mset items = mset (map fields rs) \<and> length items = length rs \<and>
         w' = w\<lparr>stdout := stdout w @
           output_of (length rs)
             (body_of (map (\<lambda>it. ''(\"'' @ py_str py (fst it) @ ''\", \"'' @ py_str py (snd it) @ ''\"), '')
                items))\<rparr>))"
proof (intro conjI impI)
  assume "valid_dataset rs"
  then show "gen_cc py w =
        (Inr (), w\<lparr>stdout := stdout w @
           output_of (length rs) (body_of (map entry (sort_key fst (pairs_of rs))))\<rparr>)"
    by (rule gen_cc_valid [OF assms(1)])
next
  show "length (map entry (sort_key fst (pairs_of rs))) = length rs"
    by (simp add: pairs_of_def)
next
  assume "gen_cc py w = (Inr (), w')"
  from gen_cc_normal [OF this] assms(1) obtain items0 items where
      p: "list_map project rs = Inr items0" and s: "sorted_py items0 = Inr items"
      and w': "w' = w\<lparr>stdout := stdout w @
        output_of (length items) (body_of (map (fmt_item py) items))\<rparr>"
    by auto
  from p list_map_project [OF assms(2)] have "items0 = map fields rs"
    by simp
  with s have "mset items = mset (map fields rs)" and "length items = length rs"
    by (auto dest: sorted_py_mset sorted_py_length)
  with w' show "\<exists>items. mset items = mset (map fields rs) \<and> length items = length rs \<and>
         w' = w\<lparr>stdout := stdout w @
           output_of (length rs)
             (body_of (map (\<lambda>it. ''(\"'' @ py_str py (fst it) @ ''\", \"'' @ py_str py (snd it) @ ''\"), '')
                items))\<rparr>"
    by (auto simp: fmt_item_eq)
qed

theorem cardinality_preserved_witness:
  "load_data example_python (example_world text_us_ad) = Inr (JList records_us_ad) \<and>
   list_all has_keys records_us_ad \<and>
   valid_dataset records_us_ad \<and>
   gen_cc example_python (example_world text_us_ad) =
     (Inr (), (example_world text_us_ad)\<lparr>stdout :=
        output_of 2 (body_of [entry (''AD'', ''Andorra''), entry (''US'', ''United States'')])\<rparr>) \<and>
   (\<exists>items. mset items = mset (map fields records_us_ad) \<and> length items = length records_us_ad \<and>
      (example_world text_us_ad)\<lparr>stdout :=
        output_of 2 (body_of [entry (''AD'', ''Andorra''), entry (''US'', ''United States'')])\<rparr> =
      (example_world text_us_ad)\<lparr>stdout := stdout (example_world text_us_ad) @
        output_of (length records_us_ad)
          (body_of (map (\<lambda>it. ''(\"'' @ py_str example_python (fst it) @ ''\", \"''
             @ py_str example_python (snd it) @ ''\"), '') items))\<rparr>)"
  using cardinality_preserved [OF load_us_ad has_keys_us_ad] load_us_ad has_keys_us_ad
    valid_us_ad gen_cc_us_ad
  by blast

subsection \<open>Order\<close>

text \<open>
  Claim C2.  For every valid dataset the pairs of the emitted body are in byte-wise
  ascending order of their codes (no pair has a code smaller than the code of a pair
  before it), and for every code the pairs with that code are the input's pairs with that
  code, in the order of the input: the sort is stable and reads the code only.
\<close>

theorem sorted_by_code_stable:
  assumes "load_data py w = Inr (JList rs)" and "valid_dataset rs"
  shows "\<exists>items.
    gen_cc py w =
      (Inr (), w\<lparr>stdout := stdout w @ output_of (length items) (body_of (map entry items))\<rparr>) \<and>
    sorted_wrt (\<lambda>p q. \<not> bytes_less (fst q) (fst p)) items \<and>
    (\<forall>k. filter (\<lambda>p. fst p = k) items = filter (\<lambda>p. fst p = k) (pairs_of rs))"
proof -
  let ?items = "sort_key fst (pairs_of rs)"
  have "sorted (map fst ?items)"
    by (rule sorted_sort_key)
  then have "sorted_wrt (\<lambda>p q. fst p \<le> fst q) ?items"
    by (simp add: sorted_map)
  then have "sorted_wrt (\<lambda>p q. \<not> bytes_less (fst q) (fst p)) ?items"
    by (simp add: bytes_less_iff not_less)
  moreover have "\<forall>k. filter (\<lambda>p. fst p = k) ?items = filter (\<lambda>p. fst p = k) (pairs_of rs)"
    by (simp add: sort_key_stable)
  moreover have "length ?items = length rs"
    by (simp add: pairs_of_def)
  ultimately show ?thesis
    using gen_cc_valid [OF assms] by (intro exI [of _ ?items]) simp
qed

theorem sorted_by_code_stable_witness:
  "load_data example_python (example_world text_ties) = Inr (JList records_ties) \<and>
   valid_dataset records_ties \<and>
   pairs_of records_ties = [(''B'', ''z''), (''B'', ''a''), (''A'', ''m'')] \<and>
   gen_cc example_python (example_world text_ties) =
     (Inr (), (example_world text_ties)\<lparr>stdout :=
        output_of 3 (body_of (map entry [(''A'', ''m''), (''B'', ''z''), (''B'', ''a'')]))\<rparr>) \<and>
   (\<exists>items.
      gen_cc example_python (example_world text_ties) =
        (Inr (), (example_world text_ties)\<lparr>stdout :=
           output_of (length items) (body_of (map entry items))\<rparr>) \<and>
      sorted_wrt (\<lambda>p q. \<not> bytes_less (fst q) (fst p)) items \<and>
      (\<forall>k. filter (\<lambda>p. fst p = k) items = filter (\<lambda>p. fst p = k) (pairs_of records_ties)))"
proof -
  have "gen_cc example_python (example_world text_ties) =
     (Inr (), (example_world text_ties)\<lparr>stdout :=
        output_of 3 (body_of (map entry [(''A'', ''m''), (''B'', ''z''), (''B'', ''a'')]))\<rparr>)"
    using gen_cc_valid [OF load_ties valid_ties]
    by (simp add: pairs_ties) (simp add: records_ties_def numeral_3_eq_3)
  then show ?thesis
    using sorted_by_code_stable [OF load_ties valid_ties] load_ties valid_ties pairs_ties
    by simp
qed

subsection \<open>The output format\<close>

text \<open>
  Claim C3.  For every valid dataset the text written to standard output is, byte for
  byte: a blank line; the declaration
  \<^verbatim>\<open>pub static COUNTRY_CODES: [(&'static str, &'static str); N] = [\<close> with the decimal
  count \<open>N\<close>; for every pair, in sorted order, a newline, four spaces and the one entry
  \<^verbatim>\<open>("CODE", "Name"), \<close> (the test \<^verbatim>\<open>i % 1 == 0\<close> of the loop always holds, so every entry
  starts a line); a newline before the closing \<^verbatim>\<open>];\<close>; and a blank line.
\<close>

theorem output_format:
  assumes "load_data py w = Inr (JList rs)" and "valid_dataset rs"
  shows "gen_cc py w =
    (Inr (), w\<lparr>stdout := stdout w @
       ''\<newline>'' @
       ''pub static COUNTRY_CODES: [(&'static str, &'static str); '' @ decimal (length rs) @ ''] = [''
         @ concat (map (\<lambda>p. ''\<newline>'' @ ''    '' @ ''(\"'' @ fst p @ ''\", \"'' @ snd p @ ''\"), '')
             (sort_key fst (pairs_of rs)))
         @ ''\<newline>'' @ ''];'' @ ''\<newline>'' @
       ''\<newline>''\<rparr>)"
  using gen_cc_valid [OF assms]
  by (simp add: output_of_def body_of_def entry_def comp_def)

theorem output_format_witness:
  "load_data example_python (example_world text_us_ad) = Inr (JList records_us_ad) \<and>
   valid_dataset records_us_ad \<and>
   gen_cc example_python (example_world text_us_ad) =
     (Inr (), (example_world text_us_ad)\<lparr>stdout :=
        ''\<newline>pub static COUNTRY_CODES: [(&'static str, &'static str); 2] = [\<newline>    (\"AD\", \"Andorra\"), \<newline>    (\"US\", \"United States\"), \<newline>];\<newline>\<newline>''\<rparr>)"
proof -
  have "decimal (length records_us_ad) = ''2''"
    by (simp add: records_us_ad_def decimal.simps digit_char_def)
  then show ?thesis
    using output_format [OF load_us_ad valid_us_ad] load_us_ad valid_us_ad
    by (simp add: pairs_us_ad)
qed

subsection \<open>Errors\<close>

lemma project_lacks_key:
  "lacks_key r \<Longrightarrow> project r = Inl (KeyError ''alpha-2'') \<or> project r = Inl (KeyError ''name'')"
  by (cases r) (auto simp: project_def split: option.splits)

lemma project_error:
  "project r = Inl e \<Longrightarrow> e \<in> {KeyError ''alpha-2'', KeyError ''name'', TypeError}"
  by (cases r) (auto simp: project_def split: option.splits)

lemma list_map_error:
  "list_ex (\<lambda>x. \<exists>e. f x = Inl e) xs \<Longrightarrow> \<exists>x e. x \<in> set xs \<and> f x = Inl e \<and> list_map f xs = Inl e"
  by (induction xs) (auto split: sum.splits)

lemma gen_code_lacks_key:
  assumes "list_ex lacks_key rs"
  shows "\<exists>e. e \<in> {KeyError ''alpha-2'', KeyError ''name'', TypeError} \<and> gen_code py (JList rs) = Inl e"
proof -
  from assms have "list_ex (\<lambda>r. \<exists>e. project r = Inl e) rs"
    using project_lacks_key by (fastforce simp: list_ex_iff)
  then obtain r e where "project r = Inl e" "list_map project rs = Inl e"
    using list_map_error by blast
  then show ?thesis
    using project_error by (auto simp: gen_code_def)
qed

text \<open>
  Claim C4.  When the dataset file cannot be opened or read, when its text is not valid
  JSON, or when a record of the parsed list lacks the key \<^verbatim>\<open>alpha-2\<close> or the key \<^verbatim>\<open>name\<close>,
  \<open>gen_cc\<close> ends with an exception and standard output is as it was: nothing has been
  written, and the script exits with status 1.  Whatever the exception, no byte is
  written.  On a valid dataset \<open>gen_cc\<close> writes the whole literal, the count and every
  entry, and the script exits with status 0; and whenever \<open>gen_cc\<close> returns normally,
  the status is 0 and what has been written is the whole literal of the items the
  dataset gave: their number and the entry of each of them.
\<close>

theorem all_or_nothing:
  "(read_text w (ISO3166_DATA w) = Inl e \<longrightarrow>
      gen_cc py w = (Inl e, w) \<and> run_script py w = (1, w)) \<and>
   (read_text w (ISO3166_DATA w) = Inr txt \<and> json_loads py txt = None \<longrightarrow>
      gen_cc py w = (Inl JSONDecodeError, w) \<and> run_script py w = (1, w)) \<and>
   (load_data py w = Inr (JList rs) \<and> list_ex lacks_key rs \<longrightarrow>
      (\<exists>e'. e' \<in> {KeyError ''alpha-2'', KeyError ''name'', TypeError} \<and> gen_cc py w = (Inl e', w)) \<and>
      run_script py w = (1, w)) \<and>
   (gen_cc py w = (Inl e, w') \<longrightarrow> w' = w \<and> run_script py w = (1, w)) \<and>
   (load_data py w = Inr (JList rs) \<and> valid_dataset rs \<longrightarrow>
      gen_cc py w =
        (Inr (), w\<lparr>stdout := stdout w @
           output_of (length rs) (body_of (map entry (sort_key fst (pairs_of rs))))\<rparr>) \<and>
      run_script py w =
        (0, w\<lparr>stdout := stdout w @
           output_of (length rs) (body_of (map entry (sort_key fst (pairs_of rs))))\<rparr>)) \<and>
   (gen_cc py w = (Inr (), w'') \<longrightarrow>
      run_script py w = (0, w'') \<and>
      (\<exists>data elems items0 items.
         load_data py w = Inr data \<and> py_iter data = Inr elems \<and>
         list_map project elems = Inr items0 \<and> mset items = mset items0 \<and>
         w'' = w\<lparr>stdout := stdout w @
           output_of (length items)
             (body_of (map (\<lambda>it. ''(\"'' @ py_str py (fst it) @ ''\", \"'' @ py_str py (snd it) @ ''\"), '')
                items))\<rparr>))"
proof (intro conjI impI)
  assume "read_text w (ISO3166_DATA w) = Inl e"
  then show "gen_cc py w = (Inl e, w)" and "run_script py w = (1, w)"
    by (simp_all add: run_script_def main_def gen_cc_def load_data_def)
next
  assume "read_text w (ISO3166_DATA w) = Inr txt \<and> json_loads py txt = None"
  then show "gen_cc py w = (Inl JSONDecodeError, w)" and "run_script py w = (1, w)"
    by (simp_all add: run_script_def main_def gen_cc_def load_data_def)
next
  assume a: "load_data py w = Inr (JList rs) \<and> list_ex lacks_key rs"
  then obtain e' where e': "e' \<in> {KeyError ''alpha-2'', KeyError ''name'', TypeError}"
      "gen_code py (JList rs) = Inl e'"
    using gen_code_lacks_key by blast
  with a have g: "gen_cc py w = (Inl e', w)"
    by (simp add: gen_cc_def)
  with e' show "\<exists>e'. e' \<in> {KeyError ''alpha-2'', KeyError ''name'', TypeError} \<and> gen_cc py w = (Inl e', w)"
    by blast
  from g show "run_script py w = (1, w)"
    by (simp add: run_script_def main_def)
next
  assume a: "gen_cc py w = (Inl e, w')"
  then show "w' = w"
    by (auto simp: gen_cc_def split: sum.splits)
  with a show "run_script py w = (1, w)"
    by (simp add: run_script_def main_def)
next
  assume a: "load_data py w = Inr (JList rs) \<and> valid_dataset rs"
  then show g: "gen_cc py w =
        (Inr (), w\<lparr>stdout := stdout w @
           output_of (length rs) (body_of (map entry (sort_key fst (pairs_of rs))))\<rparr>)"
    using gen_cc_valid by blast
  then show "run_script py w =
        (0, w\<lparr>stdout := stdout w @
           output_of (length rs) (body_of (map entry (sort_key fst (pairs_of rs))))\<rparr>)"
    by (simp add: run_script_def main_def)
next
  assume a: "gen_cc py w = (Inr (), w'')"
  then show "run_script py w = (0, w'')"
    by (simp add: run_script_def main_def)
  from gen_cc_normal [OF a] obtain data elems items0 items where
      "load_data py w = Inr data" "py_iter data = Inr elems"
      "list_map project elems = Inr items0" "sorted_py items0 = Inr items"
      "w'' = w\<lparr>stdout := stdout w @
        output_of (length items) (body_of (map (fmt_item py) items))\<rparr>"
    by blast
  then show "\<exists>data elems items0 items.
         load_data py w = Inr data \<and> py_iter data = Inr elems \<and>
         list_map project elems = Inr items0 \<and> mset items = mset items0 \<and>
         w'' = w\<lparr>stdout := stdout w @
           output_of (length items)
             (body_of (map (\<lambda>it. ''(\"'' @ py_str py (fst it) @ ''\", \"'' @ py_str py (snd it) @ ''\"), '')
                items))\<rparr>"
    by (auto simp: fmt_item_eq dest: sorted_py_mset)
qed

theorem all_or_nothing_witness:
  "read_text example_no_file (ISO3166_DATA example_no_file) = Inl OSError \<and>
   gen_cc example_python example_no_file = (Inl OSError, example_no_file) \<and>
   run_script example_python example_no_file = (1, example_no_file) \<and>
   read_text (example_world ''{'') (ISO3166_DATA (example_world ''{'')) = Inr ''{'' \<and>
   json_loads example_python ''{'' = None \<and>
   gen_cc example_python (example_world ''{'') = (Inl JSONDecodeError, example_world ''{'') \<and>
   run_script example_python (example_world ''{'') = (1, example_world ''{'') \<and>
   load_data example_python (example_world text_no_name) = Inr (JList records_no_name) \<and>
   list_ex lacks_key records_no_name \<and>
   gen_cc example_python (example_world text_no_name) =
     (Inl (KeyError ''name''), example_world text_no_name) \<and>
   run_script example_python (example_world text_no_name) = (1, example_world text_no_name) \<and>
   load_data example_python (example_world text_us_ad) = Inr (JList records_us_ad) \<and>
   valid_dataset records_us_ad \<and>
   gen_cc example_python (example_world text_us_ad) =
     (Inr (), (example_world text_us_ad)\<lparr>stdout :=
        output_of 2 (body_of [entry (''AD'', ''Andorra''), entry (''US'', ''United States'')])\<rparr>) \<and>
   run_script example_python (example_world text_us_ad) =
     (0, (example_world text_us_ad)\<lparr>stdout :=
        output_of 2 (body_of [entry (''AD'', ''Andorra''), entry (''US'', ''United States'')])\<rparr>)"
proof -
  have h1: "read_text example_no_file (ISO3166_DATA example_no_file) = Inl OSError"
    by (simp add: example_no_file_def)
  have h2: "read_text (example_world ''{'') (ISO3166_DATA (example_world ''{'')) = Inr ''{''"
    by simp
  have h3: "list_ex lacks_key records_no_name"
    by (simp add: records_no_name_def)
  have g3: "gen_cc example_python (example_world text_no_name) =
     (Inl (KeyError ''name''), example_world text_no_name)"
    using load_no_name by (simp add: gen_cc_def gen_code_def records_no_name_def project_def)
  note t1 = all_or_nothing [of example_no_file OSError example_python]
  note t2 = all_or_nothing [of "example_world ''{''" _ example_python "''{''"]
  note t3 = all_or_nothing [of "example_world text_no_name" _ example_python _ records_no_name]
  note t5 = all_or_nothing [of "example_world text_us_ad" _ example_python _ _ _
      "(example_world text_us_ad)\<lparr>stdout :=
        output_of 2 (body_of [entry (''AD'', ''Andorra''), entry (''US'', ''United States'')])\<rparr>"]
  from t1 h1 have c1: "gen_cc example_python example_no_file = (Inl OSError, example_no_file)"
      "run_script example_python example_no_file = (1, example_no_file)"
    by blast+
  from t2 h2 loads_malformed
  have c2: "gen_cc example_python (example_world ''{'') = (Inl JSONDecodeError, example_world ''{'')"
      "run_script example_python (example_world ''{'') = (1, example_world ''{'')"
    by blast+
  from t3 load_no_name h3
  have c3: "run_script example_python (example_world text_no_name) = (1, example_world text_no_name)"
    by blast
  from t5 gen_cc_us_ad
  have c5: "run_script example_python (example_world text_us_ad) =
     (0, (example_world text_us_ad)\<lparr>stdout :=
        output_of 2 (body_of [entry (''AD'', ''Andorra''), entry (''US'', ''United States'')])\<rparr>)"
    by blast
  show ?thesis
    using h1 h2 h3 g3 c1 c2 c3 c5 loads_malformed load_no_name load_us_ad valid_us_ad gen_cc_us_ad
    by blast
qed

subsection \<open>Round trip\<close>

lemma same_fields_record:
  "country_record r \<Longrightarrow> same_fields r r' \<Longrightarrow> country_record r' \<and> pair_of r' = pair_of r"
  by (cases r'; cases "lookup r ''alpha-2''"; cases "lookup r ''name''")
    (auto simp: country_record_def same_fields_def pair_of_def split: option.splits)

lemma same_fields_dataset:
  "list_all2 same_fields rs rs' \<Longrightarrow> valid_dataset rs \<Longrightarrow>
   valid_dataset rs' \<and> pairs_of rs' = pairs_of rs"
  unfolding valid_dataset_def pairs_of_def
  by (induction rs rs' rule: list_all2_induct) (auto dest: same_fields_record)

text \<open>
  Claim C5.  For every valid dataset the emitted body is made of the entries of exactly
  the input's pairs (the same pairs with the same multiplicities: none is lost and none
  is added), the entry of every input pair stands verbatim in the body, and a dataset
  whose records agree with the given ones on \<^verbatim>\<open>alpha-2\<close> and \<^verbatim>\<open>name\<close>, whatever other keys
  they hold, gives the same output.
\<close>

theorem pairs_round_trip:
  assumes "load_data py w = Inr (JList rs)" and "valid_dataset rs"
  shows "(\<exists>items.
      gen_cc py w =
        (Inr (), w\<lparr>stdout := stdout w @ output_of (length items) (body_of (map entry items))\<rparr>) \<and>
      mset items = mset (pairs_of rs) \<and>
      (\<forall>p\<in>set (pairs_of rs). \<exists>pre post. body_of (map entry items) = pre @ entry p @ post)) \<and>
    (list_all2 same_fields rs rs' \<longrightarrow> gen_code py (JList rs') = gen_code py (JList rs))"
proof
  let ?items = "sort_key fst (pairs_of rs)"
  have "length ?items = length rs"
    by (simp add: pairs_of_def)
  with gen_cc_valid [OF assms]
  have "gen_cc py w =
      (Inr (), w\<lparr>stdout := stdout w @ output_of (length ?items) (body_of (map entry ?items))\<rparr>)"
    by simp
  moreover have "mset ?items = mset (pairs_of rs)"
    by simp
  moreover have "\<forall>p\<in>set (pairs_of rs). \<exists>pre post. body_of (map entry ?items) = pre @ entry p @ post"
    by (auto intro!: entry_in_body)
  ultimately show "\<exists>items.
      gen_cc py w =
        (Inr (), w\<lparr>stdout := stdout w @ output_of (length items) (body_of (map entry items))\<rparr>) \<and>
      mset items = mset (pairs_of rs) \<and>
      (\<forall>p\<in>set (pairs_of rs). \<exists>pre post. body_of (map entry items) = pre @ entry p @ post)"
    by blast
next
  show "list_all2 same_fields rs rs' \<longrightarrow> gen_code py (JList rs') = gen_code py (JList rs)"
  proof
    assume "list_all2 same_fields rs rs'"
    then have "valid_dataset rs'" and "pairs_of rs' = pairs_of rs" and "length rs' = length rs"
      using same_fields_dataset [OF _ assms(2)] by (auto dest: list_all2_lengthD)
    then show "gen_code py (JList rs') = gen_code py (JList rs)"
      by (simp add: gen_code_valid assms(2))
  qed
qed

theorem pairs_round_trip_witness:
  "load_data example_python (example_world text_us_ad) = Inr (JList records_us_ad) \<and>
   valid_dataset records_us_ad \<and>
   list_all2 same_fields records_us_ad records_us_ad_extra \<and>
   (\<exists>items.
      gen_cc example_python (example_world text_us_ad) =
        (Inr (), (example_world text_us_ad)\<lparr>stdout :=
           output_of (length items) (body_of (map entry items))\<rparr>) \<and>
      mset items = {#(''US'', ''United States''), (''AD'', ''Andorra'')#} \<and>
      (\<exists>pre post. body_of (map entry items) = pre @ entry (''US'', ''United States'') @ post) \<and>
      (\<exists>pre post. body_of (map entry items) = pre @ entry (''AD'', ''Andorra'') @ post)) \<and>
   gen_code example_python (JList records_us_ad_extra) =
     gen_code example_python (JList records_us_ad)"
proof -
  have same: "list_all2 same_fields records_us_ad records_us_ad_extra"
    by (simp add: records_us_ad_def records_us_ad_extra_def same_fields_def)
  show ?thesis
    using pairs_round_trip [OF load_us_ad valid_us_ad, of records_us_ad_extra]
      load_us_ad valid_us_ad same
    by (simp add: pairs_us_ad add_mset_commute)
qed

subsection \<open>The empty dataset\<close>

text \<open>
  Claim C6, as amended.  For the empty dataset \<open>gen_cc\<close> writes the literal with the
  declared length 0 and no entry; between the brackets stands exactly one newline, the
  one line 25 appends to the body.
\<close>

theorem empty_dataset:
  assumes "load_data py w = Inr (JList [])"
  shows "gen_cc py w =
    (Inr (), w\<lparr>stdout := stdout w @
       ''\<newline>pub static COUNTRY_CODES: [(&'static str, &'static str); 0] = [\<newline>];\<newline>\<newline>''\<rparr>)"
proof -
  have "decimal 0 = ''0''"
    by (simp add: decimal.simps digit_char_def)
  then show ?thesis
    using gen_cc_valid [OF assms]
    by (simp add: valid_dataset_def pairs_of_def body_of_def output_of_def)
qed

theorem empty_dataset_witness:
  "load_data example_python (example_world ''[]'') = Inr (JList []) \<and>
   gen_cc example_python (example_world ''[]'') =
     (Inr (), (example_world ''[]'')\<lparr>stdout :=
        ''\<newline>pub static COUNTRY_CODES: [(&'static str, &'static str); 0] = [\<newline>];\<newline>\<newline>''\<rparr>)"
  using empty_dataset [OF load_empty] load_empty by simp

text \<open>
  Claim C6 as stated asks for an empty body between the brackets.  On the empty dataset
  the output is not the literal with nothing between the brackets.
\<close>

theorem empty_body_counterexample:
  "load_data example_python (example_world ''[]'') = Inr (JList []) \<and>
   stdout (snd (gen_cc example_python (example_world ''[]''))) \<noteq>
     ''\<newline>pub static COUNTRY_CODES: [(&'static str, &'static str); 0] = [];\<newline>\<newline>''"
proof -
  have "decimal 0 = ''0''"
    by (simp add: decimal.simps digit_char_def)
  then show ?thesis
    using gen_cc_valid [OF load_empty] load_empty
    by (simp add: valid_dataset_def pairs_of_def body_of_def output_of_def)
qed

subsection \<open>No escaping\<close>

text \<open>
  Claim C7.  The name of a pair is put into its entry without any escaping: for every
  valid dataset and every pair of it whose name contains a double quote, the output
  contains the entry with the name exactly as it is, the quote included.
\<close>

theorem name_not_escaped:
  assumes "load_data py w = Inr (JList rs)" and "valid_dataset rs"
    and "(c, n) \<in> set (pairs_of rs)" and "CHR 0x22 \<in> set n"
  shows "\<exists>pre post. gen_cc py w =
    (Inr (), w\<lparr>stdout := stdout w @ pre @ ''(\"'' @ c @ ''\", \"'' @ n @ ''\"), '' @ post\<rparr>)"
proof -
  from assms(3) have "entry (c, n) \<in> set (map entry (sort_key fst (pairs_of rs)))"
    by simp
  then obtain pre post where
    "body_of (map entry (sort_key fst (pairs_of rs))) = pre @ entry (c, n) @ post"
    using entry_in_body by blast
  then have "output_of (length rs) (body_of (map entry (sort_key fst (pairs_of rs)))) =
    (''\<newline>'' @ ''pub static COUNTRY_CODES: [(&'static str, &'static str); '' @ decimal (length rs)
       @ ''] = ['' @ pre) @ ''(\"'' @ c @ ''\", \"'' @ n @ ''\"), '' @ (post @ ''];'' @ ''\<newline>'' @ ''\<newline>'')"
    by (simp add: output_of_def entry_def)
  with gen_cc_valid [OF assms(1,2)] show ?thesis
    by metis
qed

theorem name_not_escaped_witness:
  "load_data example_python (example_world text_quote) = Inr (JList records_quote) \<and>
   valid_dataset records_quote \<and>
   (''X'', ''a\"b'') \<in> set (pairs_of records_quote) \<and>
   CHR 0x22 \<in> set ''a\"b'' \<and>
   (\<exists>pre post. gen_cc example_python (example_world text_quote) =
      (Inr (), (example_world text_quote)\<lparr>stdout := pre @ ''(\"X\", \"a\"b\"), '' @ post\<rparr>))"
proof -
  have h3: "(''X'', ''a\"b'') \<in> set (pairs_of records_quote)"
    by (simp add: pairs_quote)
  have h4: "CHR 0x22 \<in> set ''a\"b''"
    by simp
  show ?thesis
    using name_not_escaped [OF load_quote valid_quote h3 h4] load_quote valid_quote h3 h4
    by simp
qed

subsection \<open>Determinism\<close>

lemma gen_cc_same_text:
  assumes "read_text w1 (ISO3166_DATA w1) = read_text w2 (ISO3166_DATA w2)"
  shows "fst (gen_cc py w1) = fst (gen_cc py w2) \<and>
    (\<exists>out. stdout (snd (gen_cc py w1)) = stdout w1 @ out \<and>
           stdout (snd (gen_cc py w2)) = stdout w2 @ out)"
proof -
  from assms have same: "load_data py w1 = load_data py w2"
    by (simp add: load_data_def)
  show ?thesis
  proof (cases "load_data py w2")
    case (Inl e)
    with same show ?thesis
      by (simp add: gen_cc_def)
  next
    case (Inr data)
    with same show ?thesis
      by (cases "gen_code py data") (simp_all add: gen_cc_def print_def)
  qed
qed

lemma main_text_world:
  assumes "file_bytes e1 (ISO3166_DATA (text_world e1)) = file_bytes e2 (ISO3166_DATA (text_world e2))"
    and "locale_decode e1 = locale_decode e2"
  shows "fst (main py (text_world e1)) = fst (main py (text_world e2)) \<and>
    stdout (snd (main py (text_world e1))) = stdout (snd (main py (text_world e2)))"
proof -
  have r: "read_text (text_world env) p =
      (case file_bytes env p of
         Inl e \<Rightarrow> Inl e
       | Inr bs \<Rightarrow> (case locale_decode env bs of
                       None \<Rightarrow> Inl UnicodeDecodeError
                     | Some txt \<Rightarrow> Inr txt))" for env p
    by (simp add: text_world_def)
  have "read_text (text_world e1) (ISO3166_DATA (text_world e1)) =
      read_text (text_world e2) (ISO3166_DATA (text_world e2))"
    unfolding r assms(1) assms(2) ..
  from gen_cc_same_text [OF this, of py] show ?thesis
    by (auto simp: main_def text_world_def)
qed

text \<open>
  Claim C8, as amended.  A run is deterministic given the two encodings: two runs on
  byte-identical dataset contents, with the same encoding of the locale (which decodes
  the file) and the same encoding of standard output, end alike and write the same bytes.
  Nothing else of the environment has a part in it: not where the script lies, and not
  what other files hold.
\<close>

theorem process_deterministic:
  assumes "file_bytes e1 (ISO3166_DATA (text_world e1)) = file_bytes e2 (ISO3166_DATA (text_world e2))"
    and "locale_decode e1 = locale_decode e2"
    and "stdout_encode e1 = stdout_encode e2"
  shows "process py e1 = process py e2"
proof -
  obtain r1 w1 where m1: "main py (text_world e1) = (r1, w1)"
    by (cases "main py (text_world e1)")
  obtain r2 w2 where m2: "main py (text_world e2) = (r2, w2)"
    by (cases "main py (text_world e2)")
  from main_text_world [OF assms(1,2), of py] m1 m2 have "r1 = r2" and "stdout w1 = stdout w2"
    by simp_all
  with m1 m2 assms(3) show ?thesis
    by (cases r2) (simp_all add: process_def)
qed

theorem process_deterministic_witness:
  "file_bytes (example_env utf8) (ISO3166_DATA (text_world (example_env utf8))) =
     file_bytes example_env_moved (ISO3166_DATA (text_world example_env_moved)) \<and>
   locale_decode (example_env utf8) = locale_decode example_env_moved \<and>
   stdout_encode (example_env utf8) = stdout_encode example_env_moved \<and>
   script_location (example_env utf8) \<noteq> script_location example_env_moved \<and>
   process example_python (example_env utf8) = process example_python example_env_moved \<and>
   process example_python (example_env utf8) =
     (Inr (), output_of 1 (body_of [entry (''AX'', name_aland)]))"
proof -
  have f: "file_bytes (example_env utf8) (ISO3166_DATA (text_world (example_env utf8))) =
     file_bytes example_env_moved (ISO3166_DATA (text_world example_env_moved))"
    by (simp add: example_env_file example_env_moved_file)
  have d: "locale_decode (example_env utf8) = locale_decode example_env_moved"
    and e: "stdout_encode (example_env utf8) = stdout_encode example_env_moved"
    and l: "script_location (example_env utf8) \<noteq> script_location example_env_moved"
    by (simp_all add: example_env_def example_env_moved_def)
  from process_deterministic [OF f d e, of example_python] f d e l process_utf8 show ?thesis
    by blast
qed

text \<open>
  Claim C8 as stated lets the output depend on the dataset alone.  It also depends on
  the encoding of standard output: on the same bytes of the dataset, with a name that is
  not ASCII, a run whose standard output is UTF-8 writes the literal and a run whose
  standard output is ASCII ends with \<^verbatim>\<open>UnicodeEncodeError\<close> and writes nothing.
\<close>

theorem output_depends_on_encoding_counterexample:
  "file_bytes (example_env utf8) (ISO3166_DATA (text_world (example_env utf8))) =
     file_bytes (example_env ascii) (ISO3166_DATA (text_world (example_env ascii))) \<and>
   locale_decode (example_env utf8) = locale_decode (example_env ascii) \<and>
   process example_python (example_env utf8) =
     (Inr (), output_of 1 (body_of [entry (''AX'', name_aland)])) \<and>
   process example_python (example_env ascii) = (Inl UnicodeEncodeError, []) \<and>
   process example_python (example_env utf8) \<noteq> process example_python (example_env ascii)"
  by (simp add: example_env_file process_utf8 process_ascii) (simp add: example_env_def)

subsection \<open>The count and the entries\<close>

text \<open>
  Claim C9.  Whenever \<open>gen_cc\<close> returns normally, on any input, what it has written is
  the literal of a rearrangement of the items the code projected from the data: the
  decimal count in the declaration is the number of these items, and the body holds the
  entry of each of them, so the count is the number of entries in the body.
\<close>

theorem count_matches_entries:
  assumes "gen_cc py w = (Inr (), w')"
  shows "\<exists>data elems items0 items.
    load_data py w = Inr data \<and> py_iter data = Inr elems \<and>
    list_map project elems = Inr items0 \<and> mset items = mset items0 \<and>
    w' = w\<lparr>stdout := stdout w @
      output_of (length items)
        (body_of (map (\<lambda>it. ''(\"'' @ py_str py (fst it) @ ''\", \"'' @ py_str py (snd it) @ ''\"), '')
           items))\<rparr> \<and>
    length (map (\<lambda>it. ''(\"'' @ py_str py (fst it) @ ''\", \"'' @ py_str py (snd it) @ ''\"), '')
      items) = length items"
proof -
  from gen_cc_normal [OF assms] obtain data elems items0 items where
      "load_data py w = Inr data" "py_iter data = Inr elems"
      "list_map project elems = Inr items0" "sorted_py items0 = Inr items"
      "w' = w\<lparr>stdout := stdout w @
        output_of (length items) (body_of (map (fmt_item py) items))\<rparr>"
    by blast
  then show ?thesis
    by (auto simp: fmt_item_eq dest: sorted_py_mset)
qed

theorem count_matches_entries_witness:
  "gen_cc example_python (example_world text_us_ad) =
     (Inr (), (example_world text_us_ad)\<lparr>stdout :=
        output_of 2 (body_of [entry (''AD'', ''Andorra''), entry (''US'', ''United States'')])\<rparr>) \<and>
   (\<exists>data elems items0 items.
      load_data example_python (example_world text_us_ad) = Inr data \<and>
      py_iter data = Inr elems \<and> list_map project elems = Inr items0 \<and>
      mset items = mset items0 \<and>
      (example_world text_us_ad)\<lparr>stdout :=
        output_of 2 (body_of [entry (''AD'', ''Andorra''), entry (''US'', ''United States'')])\<rparr> =
      (example_world text_us_ad)\<lparr>stdout := stdout (example_world text_us_ad) @
        output_of (length items)
          (body_of (map (\<lambda>it. ''(\"'' @ py_str example_python (fst it) @ ''\", \"''
             @ py_str example_python (snd it) @ ''\"), '') items))\<rparr> \<and>
      length (map (\<lambda>it. ''(\"'' @ py_str example_python (fst it) @ ''\", \"''
             @ py_str example_python (snd it) @ ''\"), '') items) = length items)"
  using count_matches_entries [OF gen_cc_us_ad] gen_cc_us_ad
  by blast

subsection \<open>No validation of the field values\<close>





end
